theory Spec2Isabelle
  imports Complex_Main "HOL-Library.AList" "HOL-Library.Char_ord" "HOL-Library.List_Lexorder"
begin

section \<open>Python values, option bags and errors\<close>

text \<open>
  The values that travel through the keyword bag, the attribute tables and the
  renderer calls of \<^verbatim>\<open>trajectory_plotter.py\<close>. Numbers are real numbers (the
  ordering of floats without their rounding); \<open>PNaN\<close> is the not-a-number that
  pandas returns for the maximum of an empty column. \<open>PDim c\<close> is holoviews'
  \<^verbatim>\<open>dim(c)\<close>, \<open>PObj n\<close> an opaque object such as the \<open>n\<close>-th axes created.
\<close>

datatype pyval =
    PNone
  | PNaN
  | PBool bool
  | PNum real
  | PStr string
  | PList "pyval list"
  | PDict "(pyval \<times> pyval) list"
  | PPoint real real
  | PLine "real \<times> real" "real \<times> real"
  | PDim string
  | PObj nat

text \<open>
  \<open>ImportError\<close> is the one error the module raises itself; the others are raised
  by Python or by the collaborators and pass through the module.
\<close>

datatype error = ImportError string | KeyError | TypeError | ValueError | IndexError

text \<open>Python's truth value, as used by \<^verbatim>\<open>if self.column:\<close>, \<^verbatim>\<open>if not self.ax:\<close>.\<close>

fun truthy :: "pyval \<Rightarrow> bool" where
  "truthy PNone = False"
| "truthy PNaN = True"
| "truthy (PBool b) = b"
| "truthy (PNum x) = (x \<noteq> 0)"
| "truthy (PStr s) = (s \<noteq> [])"
| "truthy (PList xs) = (xs \<noteq> [])"
| "truthy (PDict d) = (d \<noteq> [])"
| "truthy (PPoint x y) = True"
| "truthy (PLine p q) = True"
| "truthy (PDim c) = True"
| "truthy (PObj n) = True"

type_synonym kwargs = "string \<rightharpoonup> pyval"

text \<open>\<^verbatim>\<open>kwargs.pop(k, d)\<close>: the value and the bag without the key.\<close>

definition pop :: "string \<Rightarrow> pyval \<Rightarrow> kwargs \<Rightarrow> pyval \<times> kwargs" where
  "pop k d kw = (case kw k of None \<Rightarrow> (d, kw) | Some v \<Rightarrow> (v, kw(k := None)))"

text \<open>\<^verbatim>\<open>kwargs.get(k, d)\<close>: the bag is not changed.\<close>

definition get :: "kwargs \<Rightarrow> string \<Rightarrow> pyval \<Rightarrow> pyval" where
  "get kw k d = (case kw k of None \<Rightarrow> d | Some v \<Rightarrow> v)"

text \<open>
  A call \<^verbatim>\<open>f(k1=v1, ..., **kwargs)\<close>: Python raises TypeError (multiple values for
  a keyword argument) when the bag holds one of the keywords written out in the
  call; otherwise the callee receives both.
\<close>

definition call_kwargs :: "(string \<times> pyval) list \<Rightarrow> kwargs \<Rightarrow> error + kwargs" where
  "call_kwargs explicit kw =
     (if list_ex (\<lambda>k. kw k \<noteq> None) (map fst explicit) then Inl TypeError
      else Inr (kw ++ map_of explicit))"

section \<open>The styler object\<close>

text \<open>
  The fields \<^verbatim>\<open>_TrajectoryPlotter.__init__\<close> sets. \<open>'d\<close> is the type of
  \<^verbatim>\<open>self.data\<close>: one trajectory, or a collection for the subclass. A drawable is
  what the interactive renderer returns: the element drawn by the \<open>n\<close>-th render
  call, or the composition \<^verbatim>\<open>a * b\<close> of two drawables.
\<close>

datatype drawable = Element nat | Overlay drawable drawable

record 'd plotter =
  data :: 'd
  args :: "pyval list"
  kwargs :: kwargs
  width :: pyval
  height :: pyval
  figsize :: pyval
  column :: pyval
  ax :: pyval
  colormap :: pyval
  min_value :: pyval
  max_value :: pyval
  overlay :: "drawable option"
  hvplot_is_geo :: pyval
  hvplot_tiles :: pyval
  marker_size :: pyval
  marker_color :: pyval
  line_width :: pyval

text \<open>
  \<^verbatim>\<open>__init__\<close>, lines 15-38. \<^verbatim>\<open>self.kwargs\<close> and the local \<^verbatim>\<open>kwargs\<close> are the same
  dictionary, so every \<^verbatim>\<open>pop\<close> is a pop of the bag the styler keeps; the two reads
  of the color-by-column name and the two reads of the bounds are \<^verbatim>\<open>get\<close>s.
\<close>

definition TrajectoryPlotter_init :: "'d \<Rightarrow> pyval list \<Rightarrow> kwargs \<Rightarrow> 'd plotter" where
  "TrajectoryPlotter_init d as kw0 =
     (let (v_width, kw1) = pop ''width'' (PNum 900) kw0;
          (v_height, kw2) = pop ''height'' (PNum 700) kw1;
          (v_figsize, kw3) = pop ''figsize'' PNone kw2;
          v_column0 = get kw3 ''column'' PNone;
          v_column = get kw3 ''c'' v_column0;
          (v_ax, kw4) = pop ''ax'' PNone kw3;
          (v_colormap0, kw5) = pop ''colormap'' PNone kw4;
          (v_colormap, kw6) = pop ''column_to_color'' v_colormap0 kw5;
          v_min = get kw6 ''vmin'' PNone;
          v_max = get kw6 ''vmax'' PNone;
          (v_geo, kw7) = pop ''geo'' (PBool True) kw6;
          (v_tiles, kw8) = pop ''tiles'' (PStr ''OSM'') kw7;
          (v_marker_size, kw9) = pop ''marker_size'' (PNum 200) kw8;
          (v_marker_color, kw10) = pop ''marker_color'' PNone kw9;
          (v_line_width, kw11) = pop ''line_width'' (PNum 3) kw10
      in \<lparr> data = d, args = as, kwargs = kw11,
           width = v_width, height = v_height, figsize = v_figsize,
           column = v_column, ax = v_ax, colormap = v_colormap,
           min_value = v_min, max_value = v_max, overlay = None,
           hvplot_is_geo = v_geo, hvplot_tiles = v_tiles,
           marker_size = v_marker_size, marker_color = v_marker_color,
           line_width = v_line_width \<rparr>)"

text \<open>The option names the constructor pops, and the two it only reads.\<close>

definition popped_options :: "string list" where
  "popped_options =
     [''width'', ''height'', ''figsize'', ''ax'', ''colormap'', ''column_to_color'',
      ''geo'', ''tiles'', ''marker_size'', ''marker_color'', ''line_width'']"

definition column_options :: "string list" where
  "column_options = [''column'', ''c'']"

section \<open>Trajectories, tables and the collaborators\<close>

text \<open>
  An attribute table is its columns in order, each a name and the cells of the
  column. A trajectory is the table and what the module reads of the object:
  its coordinate reference system, whether it is in latitude and longitude, and
  the names \<^verbatim>\<open>get_geom_column_name()\<close>, \<^verbatim>\<open>get_speed_column_name()\<close> and
  \<^verbatim>\<open>get_direction_column_name()\<close> return. A table handed to a renderer also
  carries its reference system and the name of its geometry column.
\<close>

type_synonym dataframe = "(string \<times> pyval list) list"

record trajectory =
  df :: dataframe
  crs :: "string option"
  is_latlon :: bool
  geom_column_name :: string
  speed_column_name :: string
  direction_column_name :: string

record trajectory_collection =
  trajectories :: "trajectory list"

record table =
  cols :: dataframe
  tcrs :: "string option"
  geom :: string

datatype renderer = StaticPlot | HvPlot

record render_call =
  renderer :: renderer
  frame :: table
  call_args :: "pyval list"
  call_kw :: kwargs

text \<open>
  Everything outside the module: whether \<^verbatim>\<open>hvplot\<close> and \<^verbatim>\<open>holoviews.opts\<close> can be
  imported, the speeds and headings the trajectory library derives from the
  positions and times of a trajectory, the projection library, the render calls
  issued so far, the figures created so far (by their \<^verbatim>\<open>figsize\<close>) and the
  overlay defaults configured so far (width and height).
\<close>

record world =
  hvplot_installed :: bool
  speed_of :: "trajectory \<Rightarrow> real list"
  direction_of :: "trajectory \<Rightarrow> real list"
  reproject :: "string \<Rightarrow> pyval \<Rightarrow> pyval"
  render_log :: "render_call list"
  figures :: "pyval list"
  overlay_defaults :: "(pyval \<times> pyval) list"

text \<open>
  Modelled from the spec: \<^verbatim>\<open>Trajectory.add_speed(overwrite=True)\<close> (the trajectory
  class is not part of the source at hand): "derived-attribute computation
  (speed, direction) with in-place caching semantics"; the speed is computed
  and attached under the trajectory's speed column name.
\<close>

definition add_speed :: "world \<Rightarrow> trajectory \<Rightarrow> trajectory" where
  "add_speed w t =
     t\<lparr>df := AList.update (speed_column_name t) (map PNum (speed_of w t)) (df t)\<rparr>"

text \<open>
  Modelled from the spec: \<^verbatim>\<open>Trajectory.add_direction(name=...)\<close>, which the module
  calls only when the column is absent: the heading is computed and attached
  under the given name.
\<close>

definition add_direction :: "world \<Rightarrow> string \<Rightarrow> trajectory \<Rightarrow> trajectory" where
  "add_direction w name t =
     t\<lparr>df := AList.update name (map PNum (direction_of w t)) (df t)\<rparr>"

fun connect :: "pyval \<Rightarrow> pyval \<Rightarrow> pyval" where
  "connect (PPoint a b) (PPoint c d) = PLine (a, b) (c, d)"
| "connect p q = PNone"

text \<open>
  Modelled from the spec: \<^verbatim>\<open>Trajectory._to_line_df()\<close>: "consecutive-position line
  segments with associated attribute columns". Every row but the first keeps
  its attributes and gains the previous position (\<^verbatim>\<open>prev_pt\<close>) and the segment
  from it (\<^verbatim>\<open>line\<close>), which is the geometry of the result.
\<close>

definition to_line_df :: "trajectory \<Rightarrow> table" where
  "to_line_df t =
     (let pts = (case map_of (df t) (geom_column_name t) of None \<Rightarrow> [] | Some ps \<Rightarrow> ps)
      in \<lparr> cols = AList.update ''line'' (map2 connect (butlast pts) (tl pts))
                    (AList.update ''prev_pt'' (butlast pts)
                       (map (\<lambda>(k, s). (k, tl s)) (df t))),
            tcrs = crs t, geom = ''line'' \<rparr>)"

text \<open>\<^verbatim>\<open>DataFrame.drop(names, axis=1)\<close>: KeyError when a name is not a column.\<close>

definition drop_columns :: "string list \<Rightarrow> dataframe \<Rightarrow> error + dataframe" where
  "drop_columns ks d =
     (if list_all (\<lambda>k. map_of d k \<noteq> None) ks
      then Inr (filter (\<lambda>(k, s). k \<notin> set ks) d) else Inl KeyError)"

text \<open>\<^verbatim>\<open>DataFrame.rename(columns={old: new})\<close>.\<close>

definition rename_column :: "string \<Rightarrow> string \<Rightarrow> dataframe \<Rightarrow> dataframe" where
  "rename_column old new d = map (\<lambda>(k, s). (if k = old then new else k, s)) d"

text \<open>\<^verbatim>\<open>DataFrame.tail(1)\<close>: the last row, that is the last cell of every column.\<close>

definition tail1 :: "dataframe \<Rightarrow> dataframe" where
  "tail1 d = map (\<lambda>(k, s). (k, drop (length s - 1) s)) d"

text \<open>
  \<^verbatim>\<open>GeoDataFrame.to_crs(epsg=4326)\<close>: ValueError on a table without a reference
  system; otherwise the geometry column is reprojected by the projection library.
\<close>

definition to_crs :: "world \<Rightarrow> table \<Rightarrow> error + table" where
  "to_crs w t =
     (case tcrs t of
        None \<Rightarrow> Inl ValueError
      | Some src \<Rightarrow>
          Inr (t\<lparr>cols := map (\<lambda>(k, s). (k, if k = geom t then map (reproject w src) s else s))
                            (cols t),
                 tcrs := Some ''EPSG:4326''\<rparr>))"

subsection \<open>Comparisons, minimum and maximum\<close>

text \<open>
  Python's \<^verbatim>\<open><\<close> on the values of a column: numbers with numbers and strings with
  strings; every comparison with not-a-number is false; anything else is a
  TypeError.
\<close>

definition py_lt :: "pyval \<Rightarrow> pyval \<Rightarrow> error + bool" where
  "py_lt x y =
     (case x of
        PNum a \<Rightarrow> (case y of PNum b \<Rightarrow> Inr (a < b) | PNaN \<Rightarrow> Inr False | _ \<Rightarrow> Inl TypeError)
      | PNaN \<Rightarrow> (case y of PNum b \<Rightarrow> Inr False | PNaN \<Rightarrow> Inr False | _ \<Rightarrow> Inl TypeError)
      | PStr a \<Rightarrow> (case y of PStr b \<Rightarrow> Inr (a < b) | _ \<Rightarrow> Inl TypeError)
      | _ \<Rightarrow> Inl TypeError)"

text \<open>
  The builtins \<^verbatim>\<open>min\<close> and \<^verbatim>\<open>max\<close> on a list: ValueError on the empty list; the
  running result is replaced by an item that is smaller (larger) than it.
\<close>

fun py_min_from :: "pyval \<Rightarrow> pyval list \<Rightarrow> error + pyval" where
  "py_min_from acc [] = Inr acc"
| "py_min_from acc (x # xs) =
     (case py_lt x acc of
        Inl e \<Rightarrow> Inl e
      | Inr b \<Rightarrow> py_min_from (if b then x else acc) xs)"

fun py_max_from :: "pyval \<Rightarrow> pyval list \<Rightarrow> error + pyval" where
  "py_max_from acc [] = Inr acc"
| "py_max_from acc (x # xs) =
     (case py_lt acc x of
        Inl e \<Rightarrow> Inl e
      | Inr b \<Rightarrow> py_max_from (if b then x else acc) xs)"

definition py_min :: "pyval list \<Rightarrow> error + pyval" where
  "py_min xs = (case xs of [] \<Rightarrow> Inl ValueError | x # rest \<Rightarrow> py_min_from x rest)"

definition py_max :: "pyval list \<Rightarrow> error + pyval" where
  "py_max xs = (case xs of [] \<Rightarrow> Inl ValueError | x # rest \<Rightarrow> py_max_from x rest)"

text \<open>
  \<^verbatim>\<open>Series.min()\<close> and \<^verbatim>\<open>Series.max()\<close>: missing values are skipped, and the result
  for a column with no value is not-a-number.
\<close>

definition series_min :: "pyval list \<Rightarrow> error + pyval" where
  "series_min s =
     (let xs = filter (\<lambda>c. c \<noteq> PNaN) s in if xs = [] then Inr PNaN else py_min xs)"

definition series_max :: "pyval list \<Rightarrow> error + pyval" where
  "series_max s =
     (let xs = filter (\<lambda>c. c \<noteq> PNaN) s in if xs = [] then Inr PNaN else py_max xs)"

text \<open>
  \<^verbatim>\<open>frame[col]\<close>: column names are strings, so any other label is not a column
  of the table and the lookup is a KeyError.
\<close>

definition column_series :: "dataframe \<Rightarrow> pyval \<Rightarrow> error + pyval list" where
  "column_series d col =
     (case col of
        PStr c \<Rightarrow> (case map_of d c of None \<Rightarrow> Inl KeyError | Some s \<Rightarrow> Inr s)
      | _ \<Rightarrow> Inl KeyError)"

text \<open>\<^verbatim>\<open>traj.df[self.column].max()\<close>.\<close>

definition column_max :: "trajectory \<Rightarrow> pyval \<Rightarrow> error + pyval" where
  "column_max traj col =
     (case column_series (df traj) col of Inl e \<Rightarrow> Inl e | Inr s \<Rightarrow> series_max s)"

text \<open>
  \<^verbatim>\<open>mapping[key]\<close> on the value-to-color mapping: KeyError when a dictionary lacks
  the key (not-a-number is never found); a value that is no dictionary cannot be
  subscripted with a column value.
\<close>

definition subscript :: "pyval \<Rightarrow> pyval \<Rightarrow> error + pyval" where
  "subscript m k =
     (case m of
        PDict d \<Rightarrow>
          (if k = PNaN then Inl KeyError
           else case map_of d k of None \<Rightarrow> Inl KeyError | Some v \<Rightarrow> Inr v)
      | _ \<Rightarrow> Inl TypeError)"

text \<open>Applying a fallible function to every element, stopping at the first error.\<close>

fun map_err :: "('a \<Rightarrow> error + 'b) \<Rightarrow> 'a list \<Rightarrow> error + 'b list" where
  "map_err f [] = Inr []"
| "map_err f (x # xs) =
     (case f x of
        Inl e \<Rightarrow> Inl e
      | Inr y \<Rightarrow> (case map_err f xs of Inl e \<Rightarrow> Inl e | Inr ys \<Rightarrow> Inr (y # ys)))"

text \<open>
  Modelled from the spec: \<^verbatim>\<open>TrajectoryCollection.get_min\<close> and \<^verbatim>\<open>get_max\<close> (the
  collection class is not part of the source at hand): "aggregate accessors
  (min/max of a named attribute across all members)".
\<close>

definition get_min :: "trajectory_collection \<Rightarrow> pyval \<Rightarrow> error + pyval" where
  "get_min coll col =
     (case map_err (\<lambda>t. case column_series (df t) col of Inl e \<Rightarrow> Inl e | Inr s \<Rightarrow> series_min s)
             (trajectories coll) of
        Inl e \<Rightarrow> Inl e
      | Inr ms \<Rightarrow> py_min ms)"

definition get_max :: "trajectory_collection \<Rightarrow> pyval \<Rightarrow> error + pyval" where
  "get_max coll col =
     (case map_err (\<lambda>t. case column_series (df t) col of Inl e \<Rightarrow> Inl e | Inr s \<Rightarrow> series_max s)
             (trajectories coll) of
        Inl e \<Rightarrow> Inl e
      | Inr ms \<Rightarrow> py_max ms)"

subsection \<open>The renderers\<close>

text \<open>\<^verbatim>\<open>plt.figure(figsize=...).add_subplot(1, 1, 1)\<close>: a new axes object.\<close>

definition new_axes :: "pyval \<Rightarrow> world \<Rightarrow> pyval \<times> world" where
  "new_axes fs w = (PObj (length (figures w)), w\<lparr>figures := figures w @ [fs]\<rparr>)"

text \<open>
  \<^verbatim>\<open>frame.plot(*args, **kw)\<close> of the static renderer: the call is recorded, and the
  axes drawn on are returned: the \<^verbatim>\<open>ax\<close> given, or new axes when there is none.
\<close>

definition static_render :: "table \<Rightarrow> pyval list \<Rightarrow> kwargs \<Rightarrow> world \<Rightarrow> pyval \<times> world" where
  "static_render t as kw w =
     (let (a, w1) = (case kw ''ax'' of
                       None \<Rightarrow> new_axes PNone w
                     | Some v \<Rightarrow> if v = PNone then new_axes PNone w else (v, w))
      in (a, w1\<lparr>render_log := render_log w1 @
                  [\<lparr>renderer = StaticPlot, frame = t, call_args = as, call_kw = kw\<rparr>]\<rparr>))"

text \<open>
  \<^verbatim>\<open>frame.hvplot(*args, **kw)\<close> of the interactive renderer: the call is recorded
  and its element returned.
\<close>

definition hv_render :: "table \<Rightarrow> pyval list \<Rightarrow> kwargs \<Rightarrow> world \<Rightarrow> drawable \<times> world" where
  "hv_render t as kw w =
     (Element (length (render_log w)),
      w\<lparr>render_log := render_log w @
           [\<lparr>renderer = HvPlot, frame = t, call_args = as, call_kw = kw\<rparr>]\<rparr>)"

section \<open>The single-trajectory styler\<close>

text \<open>
  \<^verbatim>\<open>_make_line_df\<close>, lines 40-54. \<^verbatim>\<open>temp\<close> is a copy of the trajectory: the speed
  is attached to the copy, and the trajectory given is only read.
\<close>

definition make_line_df :: "('d, 'z) plotter_scheme \<Rightarrow> world \<Rightarrow> trajectory \<Rightarrow> error + table" where
  "make_line_df p w traj =
     (let temp = traj;
          speed_col_name = speed_column_name traj;
          temp = (if truthy (column p) \<and> column p = PStr speed_col_name
                     \<and> map_of (df traj) speed_col_name = None
                  then add_speed w temp else temp);
          line_gdf = to_line_df temp
      in case drop_columns [geom_column_name temp, ''prev_pt''] (cols line_gdf) of
           Inl e \<Rightarrow> Inl e
         | Inr c \<Rightarrow>
             (let line_gdf = line_gdf\<lparr>cols := rename_column ''line'' ''geometry'' c,
                                      geom := ''geometry''\<rparr>
              in Inr (if crs traj \<noteq> None then line_gdf\<lparr>tcrs := crs traj\<rparr> else line_gdf)))"

text \<open>
  \<^verbatim>\<open>(series * -1.0).astype(float)\<close> on one cell: a number is negated, a boolean
  counts as 1 or 0, not-a-number stays, and anything else (a string, None, a
  geometry) cannot be multiplied by a float.
\<close>

fun neg_cell :: "pyval \<Rightarrow> error + pyval" where
  "neg_cell (PNum x) = Inr (PNum (x * - 1))"
| "neg_cell (PBool b) = Inr (PNum ((if b then 1 else 0) * - 1))"
| "neg_cell PNaN = Inr PNaN"
| "neg_cell v = Inl TypeError"

text \<open>
  \<^verbatim>\<open>_get_trajectory_end_with_direction\<close>, lines 56-67. The trajectory is the
  caller's object: \<^verbatim>\<open>add_direction\<close> and the \<^verbatim>\<open>drop\<close> change its table in place, so
  the trajectory is returned with the result.
\<close>

definition get_trajectory_end_with_direction ::
    "world \<Rightarrow> trajectory \<Rightarrow> (error + table) \<times> trajectory" where
  "get_trajectory_end_with_direction w traj =
     (let direction_col_name = direction_column_name traj;
          direction_exists = (map_of (df traj) direction_col_name \<noteq> None);
          traj1 = (if direction_exists then traj
                   else add_direction w direction_col_name traj);
          tmp = tail1 (df traj1)
      in case column_series tmp (PStr direction_col_name) of
           Inl e \<Rightarrow> (Inl e, traj1)
         | Inr ds \<Rightarrow>
             (case map_err neg_cell ds of
                Inl e \<Rightarrow> (Inl e, traj1)
              | Inr angles \<Rightarrow>
                  (let tmp = AList.update ''triangle_angle'' angles tmp;
                       traj2 = (if \<not> direction_exists
                                then traj1\<lparr>df := AList.delete direction_col_name (df traj1)\<rparr>
                                else traj1)
                   in (Inr \<lparr>cols = tmp, tcrs = crs traj, geom = geom_column_name traj\<rparr>,
                       traj2))))"

text \<open>
  The block \<^verbatim>\<open>try: color = self.colormap[traj.df[self.column].max()]\<close>
  \<^verbatim>\<open>except KeyError: color = "grey"\<close> of lines 73-76 and 124-127. A KeyError of the
  column lookup is caught like a KeyError of the mapping; other errors pass.
\<close>

definition resolve_color :: "('d, 'z) plotter_scheme \<Rightarrow> trajectory \<Rightarrow> error + pyval" where
  "resolve_color p traj =
     (case column_max traj (column p) of
        Inl e \<Rightarrow> (if e = KeyError then Inr (PStr ''grey'') else Inl e)
      | Inr m \<Rightarrow>
          (case subscript (colormap p) m of
             Inl e \<Rightarrow> (if e = KeyError then Inr (PStr ''grey'') else Inl e)
           | Inr v \<Rightarrow> Inr v))"

text \<open>\<^verbatim>\<open>_plot_trajectory\<close>, lines 69-88.\<close>

definition plot_trajectory ::
    "('d, 'z) plotter_scheme \<Rightarrow> world \<Rightarrow> trajectory
       \<Rightarrow> (error + pyval) \<times> ('d, 'z) plotter_scheme \<times> world" where
  "plot_trajectory p w traj =
     (case make_line_df p w traj of
        Inl e \<Rightarrow> (Inl e, p, w)
      | Inr line_df \<Rightarrow>
          if truthy (column p) \<and> truthy (colormap p) then
            (case resolve_color p traj of
               Inl e \<Rightarrow> (Inl e, p, w)
             | Inr color \<Rightarrow>
                 (case call_kwargs [(''ax'', ax p), (''color'', color)] (kwargs p) of
                    Inl e \<Rightarrow> (Inl e, p, w)
                  | Inr kw \<Rightarrow>
                      (let (line_plot, w1) = static_render line_df (args p) kw w
                       in (Inr line_plot, p, w1))))
          else
            (let p1 = p\<lparr>kwargs := snd (pop ''vmin'' PNone (kwargs p))\<rparr>;
                 p2 = p1\<lparr>kwargs := snd (pop ''vmax'' PNone (kwargs p1))\<rparr>
             in case call_kwargs [(''ax'', ax p2), (''vmin'', min_value p2),
                                  (''vmax'', max_value p2)] (kwargs p2) of
                  Inl e \<Rightarrow> (Inl e, p2, w)
                | Inr kw \<Rightarrow>
                    (let (line_plot, w1) = static_render line_df (args p2) kw w
                     in (Inr line_plot, p2, w1))))"

text \<open>
  \<^verbatim>\<open>_hvplot_end_triangle\<close>, lines 90-112. \<^verbatim>\<open>["triangle_angle"] + hover_cols\<close> is a
  TypeError unless \<^verbatim>\<open>hover_cols\<close> is a list.
\<close>

definition hvplot_end_triangle ::
    "('d, 'z) plotter_scheme \<Rightarrow> world \<Rightarrow> trajectory
       \<Rightarrow> (error + drawable) \<times> trajectory \<times> ('d, 'z) plotter_scheme \<times> world" where
  "hvplot_end_triangle p w traj =
     (let p1 = p\<lparr>kwargs := snd (pop ''tiles'' PNone (kwargs p))\<rparr>;
          (hover_cols, kw2) = pop ''hover_cols'' PNone (kwargs p1);
          hc1 = [PStr ''triangle_angle''];
          p2 = p1\<lparr>kwargs := kw2(''hover_cols'' \<mapsto> PList hc1)\<rparr>
      in case (if truthy hover_cols
               then (case hover_cols of PList hs \<Rightarrow> Inr (hc1 @ hs) | _ \<Rightarrow> Inl TypeError)
               else Inr hc1) of
           Inl e \<Rightarrow> (Inl e, traj, p2, w)
         | Inr hc2 \<Rightarrow>
             (let p3 = p2\<lparr>kwargs := (kwargs p2)(''hover_cols'' \<mapsto> PList hc2)\<rparr>;
                  p4 = (if truthy (marker_color p3)
                        then p3\<lparr>kwargs := (kwargs p3)(''color'' \<mapsto> marker_color p3)\<rparr>
                        else p3);
                  p5 = (if truthy (column p4)
                        then p4\<lparr>kwargs := (kwargs p4)(''hover_cols'' \<mapsto> PList (hc2 @ [column p4]))\<rparr>
                        else p4)
              in case get_trajectory_end_with_direction w traj of
                   (Inl e, traj1) \<Rightarrow> (Inl e, traj1, p5, w)
                 | (Inr end_pt_df, traj1) \<Rightarrow>
                     (case (if truthy (hvplot_is_geo p5) \<and> \<not> is_latlon traj1 \<and> crs traj1 \<noteq> None
                            then to_crs w end_pt_df else Inr end_pt_df) of
                        Inl e \<Rightarrow> (Inl e, traj1, p5, w)
                      | Inr end_pt_df \<Rightarrow>
                          (case call_kwargs
                                  [(''geo'', hvplot_is_geo p5), (''tiles'', PNone),
                                   (''marker'', PStr ''triangle''),
                                   (''angle'', PDim ''triangle_angle''),
                                   (''size'', marker_size p5)] (kwargs p5) of
                             Inl e \<Rightarrow> (Inl e, traj1, p5, w)
                           | Inr kw \<Rightarrow>
                               (let (end_pt_plot, w1) = hv_render end_pt_df (args p5) kw w
                                in (Inr end_pt_plot, traj1, p5, w1))))))"

text \<open>
  The interactive line render of \<^verbatim>\<open>_hvplot_trajectory\<close>, lines 123-146: the two
  branches of the \<^verbatim>\<open>if\<close>. In the first, \<^verbatim>\<open>label=traj.df[self.column].max()\<close> is
  evaluated outside the \<^verbatim>\<open>try\<close>.
\<close>

definition hvplot_line ::
    "('d, 'z) plotter_scheme \<Rightarrow> world \<Rightarrow> trajectory \<Rightarrow> table
       \<Rightarrow> (error + drawable) \<times> ('d, 'z) plotter_scheme \<times> world" where
  "hvplot_line p w traj line_gdf =
     (if truthy (column p) \<and> truthy (colormap p) then
        (case resolve_color p traj of
           Inl e \<Rightarrow> (Inl e, p, w)
         | Inr color \<Rightarrow>
             (case column_max traj (column p) of
                Inl e \<Rightarrow> (Inl e, p, w)
              | Inr label \<Rightarrow>
                  (case call_kwargs
                          [(''color'', color), (''line_width'', line_width p),
                           (''geo'', hvplot_is_geo p), (''tiles'', hvplot_tiles p),
                           (''label'', label)] (kwargs p) of
                     Inl e \<Rightarrow> (Inl e, p, w)
                   | Inr kw \<Rightarrow>
                       (let (line_plot, w1) = hv_render line_gdf (args p) kw w
                        in (Inr line_plot, p, w1)))))
      else
        (let p1 = (if kwargs p ''colorbar'' = None
                   then p\<lparr>kwargs := (kwargs p)(''colorbar'' \<mapsto> PBool True)\<rparr> else p)
         in case call_kwargs
                   [(''line_width'', line_width p1), (''geo'', hvplot_is_geo p1),
                    (''tiles'', hvplot_tiles p1)] (kwargs p1) of
              Inl e \<Rightarrow> (Inl e, p1, w)
            | Inr kw \<Rightarrow>
                (let (line_plot, w1) = hv_render line_gdf (args p1) kw w
                 in (Inr line_plot, p1, w1))))"

text \<open>\<^verbatim>\<open>_hvplot_trajectory\<close>, lines 114-148.\<close>

definition hvplot_trajectory ::
    "('d, 'z) plotter_scheme \<Rightarrow> world \<Rightarrow> trajectory
       \<Rightarrow> (error + drawable) \<times> trajectory \<times> ('d, 'z) plotter_scheme \<times> world" where
  "hvplot_trajectory p w traj =
     (case make_line_df p w traj of
        Inl e \<Rightarrow> (Inl e, traj, p, w)
      | Inr line_gdf \<Rightarrow>
          (case (if truthy (hvplot_is_geo p) \<and> \<not> is_latlon traj \<and> crs traj \<noteq> None
                 then to_crs w line_gdf else Inr line_gdf) of
             Inl e \<Rightarrow> (Inl e, traj, p, w)
           | Inr line_gdf \<Rightarrow>
               (case hvplot_line p w traj line_gdf of
                  (Inl e, p1, w1) \<Rightarrow> (Inl e, traj, p1, w1)
                | (Inr line_plot, p1, w1) \<Rightarrow>
                    (case hvplot_end_triangle p1 w1 traj of
                       (Inl e, traj1, p2, w2) \<Rightarrow> (Inl e, traj1, p2, w2)
                     | (Inr end_pt_plot, traj1, p2, w2) \<Rightarrow>
                         (Inr (Overlay line_plot end_pt_plot), traj1, p2, w2)))))"

text \<open>\<^verbatim>\<open>_TrajectoryPlotter.plot\<close>, lines 150-160.\<close>

definition plot ::
    "(trajectory, 'z) plotter_scheme \<Rightarrow> world
       \<Rightarrow> (error + pyval) \<times> (trajectory, 'z) plotter_scheme \<times> world" where
  "plot p w =
     (let (p1, w1) = (if \<not> truthy (ax p)
                      then (let (a, w') = new_axes (figsize p) w in (p\<lparr>ax := a\<rparr>, w'))
                      else (p, w))
      in case plot_trajectory p1 w1 (data p1) of
           (Inl e, p2, w2) \<Rightarrow> (Inl e, p2, w2)
         | (Inr a, p2, w2) \<Rightarrow>
             (let p3 = p2\<lparr>kwargs := (kwargs p2)(''legend'' \<mapsto> PBool False)\<rparr>;
                  p4 = p3\<lparr>kwargs := snd (pop ''column'' PNone (kwargs p3))\<rparr>
              in (Inr a, p4, w2)))"

text \<open>The message of the ImportError of lines 167-172 and 234-239.\<close>

definition missing_dependencies :: string where
  "missing_dependencies =
     ''Missing optional dependencies. To use interactive plotting, '' @
     ''install hvplot and GeoViews (see '' @
     ''https://hvplot.holoviz.org/getting_started/installation.html and '' @
     ''https://geoviews.org).''"

text \<open>
  \<^verbatim>\<open>opts.defaults(opts.Overlay(width=..., height=..., active_tools=["wheel_zoom"]))\<close>.
\<close>

definition opts_defaults :: "pyval \<Rightarrow> pyval \<Rightarrow> world \<Rightarrow> world" where
  "opts_defaults wd ht w = w\<lparr>overlay_defaults := overlay_defaults w @ [(wd, ht)]\<rparr>"

text \<open>
  \<^verbatim>\<open>_TrajectoryPlotter.hvplot\<close>, lines 162-179. The trajectory rendered is
  \<^verbatim>\<open>self.data\<close>, so what the render does to it is kept in \<open>data\<close>.
\<close>

definition hvplot ::
    "(trajectory, 'z) plotter_scheme \<Rightarrow> world
       \<Rightarrow> (error + drawable) \<times> (trajectory, 'z) plotter_scheme \<times> world" where
  "hvplot p w =
     (if \<not> hvplot_installed w then (Inl (ImportError missing_dependencies), p, w)
      else
        (let w1 = opts_defaults (width p) (height p) w
         in case hvplot_trajectory p w1 (data p) of
              (r, traj1, p1, w2) \<Rightarrow> (r, p1\<lparr>data := traj1\<rparr>, w2)))"

section \<open>The collection styler\<close>

record cplotter = "trajectory_collection plotter" +
  speeds :: "pyval list list"

text \<open>\<^verbatim>\<open>_TrajectoryCollectionPlotter.__init__\<close>, lines 183-185.\<close>

definition TrajectoryCollectionPlotter_init ::
    "trajectory_collection \<Rightarrow> pyval list \<Rightarrow> kwargs \<Rightarrow> cplotter" where
  "TrajectoryCollectionPlotter_init d as kw =
     plotter.extend (TrajectoryPlotter_init d as kw) (cplotter.fields [])"

text \<open>
  The loop of \<^verbatim>\<open>get_min_max_speed\<close>, lines 200-203: the speed of a copy of every
  member is computed and its column \<^verbatim>\<open>self.column\<close> appended to \<^verbatim>\<open>self._speeds\<close>.
  What was appended before an error stays appended.
\<close>

fun collect_speeds ::
    "world \<Rightarrow> pyval \<Rightarrow> trajectory list \<Rightarrow> pyval list list \<Rightarrow> (error + unit) \<times> pyval list list" where
  "collect_speeds w col [] acc = (Inr (), acc)"
| "collect_speeds w col (traj # ts) acc =
     (let temp = add_speed w traj
      in case column_series (df temp) col of
           Inl e \<Rightarrow> (Inl e, acc)
         | Inr s \<Rightarrow> collect_speeds w col ts (acc @ [s]))"

text \<open>\<^verbatim>\<open>get_min_max_speed\<close>, lines 199-206.\<close>

definition get_min_max_speed ::
    "cplotter \<Rightarrow> world \<Rightarrow> (error + pyval \<times> pyval) \<times> cplotter" where
  "get_min_max_speed p w =
     (case collect_speeds w (column p) (trajectories (data p)) (speeds p) of
        (Inl e, sp) \<Rightarrow> (Inl e, p\<lparr>speeds := sp\<rparr>)
      | (Inr u, sp) \<Rightarrow>
          (let p1 = p\<lparr>speeds := sp\<rparr>
           in case map_err py_min (speeds p1) of
                Inl e \<Rightarrow> (Inl e, p1)
              | Inr mins \<Rightarrow>
                  (case py_min mins of
                     Inl e \<Rightarrow> (Inl e, p1)
                   | Inr v_min \<Rightarrow>
                       (case map_err py_max (speeds p1) of
                          Inl e \<Rightarrow> (Inl e, p1)
                        | Inr maxs \<Rightarrow>
                            (case py_max maxs of
                               Inl e \<Rightarrow> (Inl e, p1)
                             | Inr v_max \<Rightarrow> (Inr (v_min, v_max), p1))))))"

text \<open>
  \<^verbatim>\<open>get_min_max_values\<close>, lines 187-197. \<^verbatim>\<open>self.data.trajectories[0]\<close> is an
  IndexError on a collection without members.
\<close>

definition get_min_max_values ::
    "cplotter \<Rightarrow> world \<Rightarrow> (error + pyval \<times> pyval) \<times> cplotter" where
  "get_min_max_values p w =
     (case trajectories (data p) of
        [] \<Rightarrow> (Inl IndexError, p)
      | first # others \<Rightarrow>
          (let column_names = map fst (df first);
               speed_col_name = speed_column_name first
           in case (if column p = PStr speed_col_name \<and> speed_col_name \<notin> set column_names
                    then get_min_max_speed p w
                    else (case get_min (data p) (column p) of
                            Inl e \<Rightarrow> (Inl e, p)
                          | Inr mn \<Rightarrow>
                              (case get_max (data p) (column p) of
                                 Inl e \<Rightarrow> (Inl e, p)
                               | Inr mx \<Rightarrow> (Inr (mn, mx), p)))) of
                (Inl e, p1) \<Rightarrow> (Inl e, p1)
              | (Inr (mn, mx), p1) \<Rightarrow>
                  (let (v_min, kw1) = pop ''vmin'' mn (kwargs p1);
                       p2 = p1\<lparr>min_value := v_min, kwargs := kw1\<rparr>;
                       (v_max, kw2) = pop ''vmax'' mx (kwargs p2);
                       p3 = p2\<lparr>max_value := v_max, kwargs := kw2\<rparr>
                   in (Inr (mn, mx), p3))))"

text \<open>
  The render of member \<open>i\<close> in the loop of the collection's \<^verbatim>\<open>plot\<close>, lines
  216-222. \<^verbatim>\<open>self._speeds[i]\<close> is an IndexError when no such series was cached.
\<close>

definition plot_member ::
    "nat \<Rightarrow> trajectory \<Rightarrow> cplotter \<Rightarrow> world \<Rightarrow> (error + pyval) \<times> cplotter \<times> world" where
  "plot_member i traj p w =
     (let speed_col_name = speed_column_name traj
      in if column p = PStr speed_col_name \<and> map_of (df traj) speed_col_name = None
         then (if i < length (speeds p)
               then plot_trajectory p w
                      (traj\<lparr>df := AList.update speed_col_name (speeds p ! i) (df traj)\<rparr>)
               else (Inl IndexError, p, w))
         else plot_trajectory p w traj)"

text \<open>
  The loop of the collection's \<^verbatim>\<open>plot\<close>, lines 215-227, from member \<open>i\<close> on: the
  axes returned become \<^verbatim>\<open>self.ax\<close> and the legend is switched off.
\<close>

fun plot_members ::
    "nat \<Rightarrow> trajectory list \<Rightarrow> cplotter \<Rightarrow> world \<Rightarrow> (error + pyval) \<times> cplotter \<times> world" where
  "plot_members i [] p w = (Inr (ax p), p, w)"
| "plot_members i (traj # ts) p w =
     (case plot_member i traj p w of
        (Inl e, p1, w1) \<Rightarrow> (Inl e, p1, w1)
      | (Inr a, p1, w1) \<Rightarrow>
          plot_members (Suc i) ts
            (p1\<lparr>ax := a, kwargs := (kwargs p1)(''legend'' \<mapsto> PBool False)\<rparr>) w1)"

text \<open>\<^verbatim>\<open>_TrajectoryCollectionPlotter.plot\<close>, lines 208-227.\<close>

definition collection_plot ::
    "cplotter \<Rightarrow> world \<Rightarrow> (error + pyval) \<times> cplotter \<times> world" where
  "collection_plot p w =
     (case (if truthy (column p)
            then (case get_min_max_values p w of
                    (Inl e, p1) \<Rightarrow> (Inl e, p1)
                  | (Inr mm, p1) \<Rightarrow> (Inr (), p1))
            else (Inr (), p)) of
        (Inl e, p1) \<Rightarrow> (Inl e, p1, w)
      | (Inr u, p1) \<Rightarrow>
          (let (p2, w2) = (if \<not> truthy (ax p1)
                           then (let (a, w') = new_axes (figsize p1) w in (p1\<lparr>ax := a\<rparr>, w'))
                           else (p1, w))
           in plot_members 0 (trajectories (data p2)) p2 w2))"



section \<open>Example data\<close>

text \<open>
  Two trajectories of three positions with an attribute \<^verbatim>\<open>load\<close>, a collection of
  both, and a world whose trajectory library derives speeds and headings from
  the positions and whose projection library is the identity.
\<close>

definition ex_traj_a :: trajectory where
  "ex_traj_a =
     \<lparr> df = [(''geometry'', [PPoint 0 0, PPoint 3 4, PPoint 6 8]),
              (''load'', [PNum 2, PNum 7, PNum 5])],
       crs = None, is_latlon = True, geom_column_name = ''geometry'',
       speed_column_name = ''speed'', direction_column_name = ''direction'' \<rparr>"

definition ex_traj_b :: trajectory where
  "ex_traj_b =
     \<lparr> df = [(''geometry'', [PPoint 1 1, PPoint 1 2, PPoint 5 2]),
              (''load'', [PNum 4, PNum 1, PNum 9])],
       crs = None, is_latlon = True, geom_column_name = ''geometry'',
       speed_column_name = ''speed'', direction_column_name = ''direction'' \<rparr>"

definition ex_collection :: trajectory_collection where
  "ex_collection = \<lparr> trajectories = [ex_traj_a, ex_traj_b] \<rparr>"

fun ex_coord_sum :: "pyval \<Rightarrow> real" where
  "ex_coord_sum (PPoint x y) = x + y"
| "ex_coord_sum v = 0"

definition ex_positions :: "trajectory \<Rightarrow> pyval list" where
  "ex_positions t =
     (case map_of (df t) (geom_column_name t) of None \<Rightarrow> [] | Some ps \<Rightarrow> ps)"

definition ex_world :: "bool \<Rightarrow> world" where
  "ex_world installed =
     \<lparr> hvplot_installed = installed,
       speed_of = (\<lambda>t. map ex_coord_sum (ex_positions t)),
       direction_of = (\<lambda>t. map (\<lambda>c. 10 * ex_coord_sum c) (ex_positions t)),
       reproject = (\<lambda>src v. v),
       render_log = [], figures = [], overlay_defaults = [] \<rparr>"


section \<open>The constructor\<close>

text \<open>
  Removing a key is decided by comparing keys; the rule that first asks whether
  the key is in the domain of the bag is not used.
\<close>

declare fun_upd_None_if_notin_dom [simp del]

lemma snd_pop: "snd (pop k d kw) = kw(k := None)"
  by (auto simp: pop_def split: option.splits)

lemma fst_pop: "fst (pop k d kw) = get kw k d"
  by (simp add: pop_def get_def split: option.splits)

lemma kwargs_init_upd:
  "kwargs (TrajectoryPlotter_init d as kw) =
     kw(''width'' := None, ''height'' := None, ''figsize'' := None, ''ax'' := None,
        ''colormap'' := None, ''column_to_color'' := None, ''geo'' := None, ''tiles'' := None,
        ''marker_size'' := None, ''marker_color'' := None, ''line_width'' := None)"
  unfolding TrajectoryPlotter_init_def Let_def split_beta snd_pop
  by (simp only: plotter.simps)

lemma kwargs_init_other:
  "k \<notin> set popped_options \<Longrightarrow> kwargs (TrajectoryPlotter_init d as kw) k = kw k"
  unfolding kwargs_init_upd popped_options_def
  by (simp only: fun_upd_apply list.set insert_iff empty_iff de_Morgan_disj if_False simp_thms)

lemma kwargs_init_popped:
  "k \<in> set popped_options \<Longrightarrow> kwargs (TrajectoryPlotter_init d as kw) k = None"
  unfolding kwargs_init_upd popped_options_def list.set insert_iff empty_iff
  by (elim disjE FalseE) (simp_all only: fun_upd_apply if_True simp_thms split: if_split)

lemma data_init:
  "data (TrajectoryPlotter_init d as kw) = d"
  unfolding TrajectoryPlotter_init_def Let_def split_beta snd_pop fst_pop
  by (simp only: plotter.simps)

lemma args_init:
  "args (TrajectoryPlotter_init d as kw) = as"
  unfolding TrajectoryPlotter_init_def Let_def split_beta snd_pop fst_pop
  by (simp only: plotter.simps)

lemma width_init:
  "width (TrajectoryPlotter_init d as kw) = get kw ''width'' (PNum 900)"
  unfolding TrajectoryPlotter_init_def Let_def split_beta snd_pop fst_pop
  by (simp only: plotter.simps)

lemma height_init:
  "height (TrajectoryPlotter_init d as kw) = get kw ''height'' (PNum 700)"
  unfolding TrajectoryPlotter_init_def Let_def split_beta snd_pop fst_pop
  by (simp only: plotter.simps) (simp add: get_def)

lemma figsize_init:
  "figsize (TrajectoryPlotter_init d as kw) = get kw ''figsize'' PNone"
  unfolding TrajectoryPlotter_init_def Let_def split_beta snd_pop fst_pop
  by (simp only: plotter.simps) (simp add: get_def)

lemma column_init:
  "column (TrajectoryPlotter_init d as kw) = get kw ''c'' (get kw ''column'' PNone)"
  unfolding TrajectoryPlotter_init_def Let_def split_beta snd_pop fst_pop
  by (simp only: plotter.simps) (simp add: get_def)

lemma ax_init:
  "ax (TrajectoryPlotter_init d as kw) = get kw ''ax'' PNone"
  unfolding TrajectoryPlotter_init_def Let_def split_beta snd_pop fst_pop
  by (simp only: plotter.simps) (simp add: get_def)

lemma colormap_init:
  "colormap (TrajectoryPlotter_init d as kw) = get kw ''column_to_color'' (get kw ''colormap'' PNone)"
  unfolding TrajectoryPlotter_init_def Let_def split_beta snd_pop fst_pop
  by (simp only: plotter.simps) (simp add: get_def)

lemma min_value_init:
  "min_value (TrajectoryPlotter_init d as kw) = get kw ''vmin'' PNone"
  unfolding TrajectoryPlotter_init_def Let_def split_beta snd_pop fst_pop
  by (simp only: plotter.simps) (simp add: get_def)

lemma max_value_init:
  "max_value (TrajectoryPlotter_init d as kw) = get kw ''vmax'' PNone"
  unfolding TrajectoryPlotter_init_def Let_def split_beta snd_pop fst_pop
  by (simp only: plotter.simps) (simp add: get_def)

lemma overlay_init:
  "overlay (TrajectoryPlotter_init d as kw) = None"
  unfolding TrajectoryPlotter_init_def Let_def split_beta snd_pop fst_pop
  by (simp only: plotter.simps)

lemma hvplot_is_geo_init:
  "hvplot_is_geo (TrajectoryPlotter_init d as kw) = get kw ''geo'' (PBool True)"
  unfolding TrajectoryPlotter_init_def Let_def split_beta snd_pop fst_pop
  by (simp only: plotter.simps) (simp add: get_def)

lemma hvplot_tiles_init:
  "hvplot_tiles (TrajectoryPlotter_init d as kw) = get kw ''tiles'' (PStr ''OSM'')"
  unfolding TrajectoryPlotter_init_def Let_def split_beta snd_pop fst_pop
  by (simp only: plotter.simps) (simp add: get_def)

lemma marker_size_init:
  "marker_size (TrajectoryPlotter_init d as kw) = get kw ''marker_size'' (PNum 200)"
  unfolding TrajectoryPlotter_init_def Let_def split_beta snd_pop fst_pop
  by (simp only: plotter.simps) (simp add: get_def)

lemma marker_color_init:
  "marker_color (TrajectoryPlotter_init d as kw) = get kw ''marker_color'' PNone"
  unfolding TrajectoryPlotter_init_def Let_def split_beta snd_pop fst_pop
  by (simp only: plotter.simps) (simp add: get_def)

lemma line_width_init:
  "line_width (TrajectoryPlotter_init d as kw) = get kw ''line_width'' (PNum 3)"
  unfolding TrajectoryPlotter_init_def Let_def split_beta snd_pop fst_pop
  by (simp only: plotter.simps) (simp add: get_def)

lemmas init_fields =
  data_init args_init width_init height_init figsize_init column_init ax_init colormap_init
  min_value_init max_value_init overlay_init hvplot_is_geo_init hvplot_tiles_init
  marker_size_init marker_color_init line_width_init

text \<open>
  C9, as stated: after construction none of the module's option names is left in
  the bag, the color-by-column name included. It fails for the color-by-column
  name: \<^verbatim>\<open>column\<close> (and \<^verbatim>\<open>c\<close>) is read with \<^verbatim>\<open>get\<close>, so it stays in the bag that is
  passed through to the renderer.
\<close>

theorem init_keeps_column_option:
  "kwargs (TrajectoryPlotter_init () [] [''column'' \<mapsto> PStr ''speed'']) ''column''
     = Some (PStr ''speed'')"
  by (simp add: kwargs_init_upd)

text \<open>
  C9, amended: the constructor removes from the bag the canvas width and height,
  the figure size, the target axis, the value-to-color mapping (under both of
  its names), the geographic-mode flag, the basemap-tile identifier, the
  end-marker size and color and the line width, and leaves every other key as
  it was; the color-by-column name is read (\<^verbatim>\<open>c\<close> before \<^verbatim>\<open>column\<close>) and is not
  one of the keys removed.
\<close>

theorem init_pops_module_options:
  "(k \<in> set popped_options \<longrightarrow> kwargs (TrajectoryPlotter_init d as kw) k = None) \<and>
   (k \<notin> set popped_options \<longrightarrow> kwargs (TrajectoryPlotter_init d as kw) k = kw k) \<and>
   column (TrajectoryPlotter_init d as kw) = get kw ''c'' (get kw ''column'' PNone) \<and>
   set column_options \<inter> set popped_options = {}"
proof (intro conjI impI)
  show "set column_options \<inter> set popped_options = {}"
    by (simp add: column_options_def popped_options_def)
qed (simp_all add: kwargs_init_popped kwargs_init_other column_init)

theorem init_pops_module_options_witness:
  "''tiles'' \<in> set popped_options \<and>
   kwargs (TrajectoryPlotter_init () []
             [''tiles'' \<mapsto> PStr ''CartoLight'', ''c'' \<mapsto> PStr ''speed'']) ''tiles'' = None \<and>
   ''c'' \<notin> set popped_options \<and>
   kwargs (TrajectoryPlotter_init () []
             [''tiles'' \<mapsto> PStr ''CartoLight'', ''c'' \<mapsto> PStr ''speed'']) ''c''
     = Some (PStr ''speed'') \<and>
   column (TrajectoryPlotter_init () []
             [''tiles'' \<mapsto> PStr ''CartoLight'', ''c'' \<mapsto> PStr ''speed'']) = PStr ''speed''"
  using init_pops_module_options [of "''tiles''" "()" "[]"
          "[''tiles'' \<mapsto> PStr ''CartoLight'', ''c'' \<mapsto> PStr ''speed'']"]
        init_pops_module_options [of "''c''" "()" "[]"
          "[''tiles'' \<mapsto> PStr ''CartoLight'', ''c'' \<mapsto> PStr ''speed'']"]
  by (simp add: popped_options_def get_def)

section \<open>The interactive entry points without the capability\<close>



section \<open>Keyword arguments and the static render of one trajectory\<close>

lemma call_kwargs_Inr:
  "call_kwargs ex kw = Inr kw' \<Longrightarrow> kw' = kw ++ map_of ex"
  by (simp add: call_kwargs_def split: if_splits)

lemma call_kwargs_other:
  "call_kwargs ex kw = Inr kw' \<Longrightarrow> map_of ex k = None \<Longrightarrow> kw' k = kw k"
  by (auto simp: call_kwargs_def map_add_def split: if_splits)

lemma call_kwargs_explicit:
  "call_kwargs ex kw = Inr kw' \<Longrightarrow> map_of ex k = Some v \<Longrightarrow> kw' k = Some v"
  by (auto simp: call_kwargs_def map_add_def split: if_splits)

lemma static_render_log:
  "static_render t as kw w = (a, w1) \<Longrightarrow>
     render_log w1 = render_log w @ [\<lparr>renderer = StaticPlot, frame = t, call_args = as, call_kw = kw\<rparr>]"
  by (auto simp: static_render_def new_axes_def Let_def split: option.splits if_splits prod.splits)

lemma static_render_ax:
  "static_render t as kw w = (a, w1) \<Longrightarrow> kw ''ax'' = Some v \<Longrightarrow> v \<noteq> PNone \<Longrightarrow> a = v"
  by (auto simp: static_render_def new_axes_def Let_def split: option.splits if_splits prod.splits)

lemma plot_trajectory_legend:
  assumes "plot_trajectory p w traj = (r, p1, w1)"
  shows "kwargs p1 ''legend'' = kwargs p ''legend''"
  using assms
  by (auto simp: plot_trajectory_def Let_def snd_pop split: sum.splits if_splits prod.splits)

lemma plot_trajectory_Inl:
  assumes "plot_trajectory p w traj = (Inl e, p1, w1)"
  shows "w1 = w"
  using assms
  by (auto simp: plot_trajectory_def Let_def snd_pop split: sum.splits if_splits prod.splits)

lemma plot_trajectory_Inr:
  assumes "plot_trajectory p w traj = (Inr a, p1, w1)"
  shows "\<exists>c. render_log w1 = render_log w @ [c] \<and> renderer c = StaticPlot \<and>
           call_kw c ''legend'' = kwargs p ''legend''"
  using assms
  by (auto simp: plot_trajectory_def Let_def snd_pop call_kwargs_other 
           dest!: static_render_log call_kwargs_Inr
           split: sum.splits if_splits prod.splits)




lemma plot_member_legend:
  "plot_member i traj p w = (r, p1, w1) \<Longrightarrow> kwargs p1 ''legend'' = kwargs p ''legend''"
  unfolding plot_member_def Let_def by (auto split: if_splits dest: plot_trajectory_legend)


lemma plot_member_Inl:
  "plot_member i traj p w = (Inl e, p1, w1) \<Longrightarrow> w1 = w"
  unfolding plot_member_def Let_def by (auto split: if_splits dest: plot_trajectory_Inl)

lemma plot_member_Inr:
  "plot_member i traj p w = (Inr a, p1, w1) \<Longrightarrow>
     \<exists>c. render_log w1 = render_log w @ [c] \<and> renderer c = StaticPlot \<and>
         call_kw c ''legend'' = kwargs p ''legend''"
  unfolding plot_member_def Let_def by (auto split: if_splits dest: plot_trajectory_Inr)



lemma plot_members_legend:
  "plot_members i ts p w = (r, p1, w1) \<Longrightarrow>
     \<exists>calls. render_log w1 = render_log w @ calls \<and> length calls \<le> length ts \<and>
        (\<not> isl r \<longrightarrow> length calls = length ts) \<and>
        (\<forall>j < length calls. 0 < j \<or> kwargs p ''legend'' = Some (PBool False)
             \<longrightarrow> call_kw (calls ! j) ''legend'' = Some (PBool False))"
proof (induction ts arbitrary: i p w)
  case Nil
  then show ?case by simp
next
  case (Cons traj ts)
  obtain r0 p0 w0 where step: "plot_member i traj p w = (r0, p0, w0)"
    by (cases "plot_member i traj p w") auto
  show ?case
  proof (cases r0)
    case (Inl e)
    have "w0 = w" using step Inl by (auto dest: plot_member_Inl)
    moreover have "plot_members i (traj # ts) p w = (Inl e, p0, w0)"
      using step Inl by simp
    ultimately show ?thesis using Cons.prems by auto
  next
    case (Inr a)
    obtain c where c: "render_log w0 = render_log w @ [c]"
        "call_kw c ''legend'' = kwargs p ''legend''"
      using step Inr by (auto dest: plot_member_Inr)
    define p' where "p' = p0\<lparr>ax := a, kwargs := (kwargs p0)(''legend'' \<mapsto> PBool False)\<rparr>"
    have rec: "plot_members (Suc i) ts p' w0 = (r, p1, w1)"
      using step Inr Cons.prems unfolding p'_def by simp
    from Cons.IH [OF rec] obtain calls where calls:
      "render_log w1 = render_log w0 @ calls" "length calls \<le> length ts"
      "\<not> isl r \<longrightarrow> length calls = length ts"
      "\<forall>j < length calls. call_kw (calls ! j) ''legend'' = Some (PBool False)"
      by (auto simp: p'_def)
    have "\<forall>j < length (c # calls). 0 < j \<or> kwargs p ''legend'' = Some (PBool False)
             \<longrightarrow> call_kw ((c # calls) ! j) ''legend'' = Some (PBool False)"
      using calls(4) c(2) by (auto simp: nth_Cons split: nat.splits)
    then show ?thesis
      using calls(1-3) c(1) by (intro exI [of _ "c # calls"]) auto
  qed
qed

lemma get_min_max_speed_data: "data (snd (get_min_max_speed p w)) = data p"
  by (auto simp: get_min_max_speed_def Let_def split: prod.splits sum.splits)

lemma get_min_max_values_data: "data (snd (get_min_max_values p w)) = data p"
  using get_min_max_speed_data [of p w]
  by (auto simp: get_min_max_values_def Let_def split: prod.splits sum.splits list.splits if_splits)

text \<open>
  C7: in every \<^verbatim>\<open>plot()\<close> of the collection styler, the render calls it issues
  are appended to the log in member order, at most one per member and exactly
  one per member when the call returns; every render call after the first has
  \<^verbatim>\<open>legend\<close> false in the keyword arguments it receives.
\<close>

theorem collection_plot_legend:
  "\<exists>calls. render_log (snd (snd (collection_plot p w))) = render_log w @ calls \<and>
      length calls \<le> length (trajectories (data p)) \<and>
      (\<not> isl (fst (collection_plot p w)) \<longrightarrow> length calls = length (trajectories (data p))) \<and>
      (\<forall>j. 0 < j \<and> j < length calls \<longrightarrow> call_kw (calls ! j) ''legend'' = Some (PBool False))"
proof -
  define pre where "pre =
    (if truthy (column p)
     then (case get_min_max_values p w of
             (Inl e, p1) \<Rightarrow> (Inl e, p1)
           | (Inr mm, p1) \<Rightarrow> (Inr (), p1))
     else (Inr (), p))"
  obtain r0 p1 where pre: "pre = (r0, p1)" by (cases pre) auto
  have d1: "data p1 = data p"
    using pre get_min_max_values_data [of p w] unfolding pre_def
    by (auto split: if_splits prod.splits sum.splits)
  show ?thesis
  proof (cases r0)
    case (Inl e)
    then have "collection_plot p w = (Inl e, p1, w)"
      using pre unfolding collection_plot_def pre_def by simp
    then show ?thesis by simp
  next
    case (Inr u)
    define p2 where "p2 = (if \<not> truthy (ax p1) then p1\<lparr>ax := fst (new_axes (figsize p1) w)\<rparr> else p1)"
    define w2 where "w2 = (if \<not> truthy (ax p1) then snd (new_axes (figsize p1) w) else w)"
    have cp: "collection_plot p w = plot_members 0 (trajectories (data p2)) p2 w2"
      using pre Inr unfolding collection_plot_def pre_def p2_def w2_def
      by (simp add: split_beta Let_def)
    have l2: "render_log w2 = render_log w" by (simp add: w2_def new_axes_def)
    have d2: "data p2 = data p" using d1 by (simp add: p2_def)
    obtain r p3 w3 where pm: "plot_members 0 (trajectories (data p2)) p2 w2 = (r, p3, w3)"
      by (cases "plot_members 0 (trajectories (data p2)) p2 w2") auto
    from plot_members_legend [OF pm] obtain calls where calls:
      "render_log w3 = render_log w2 @ calls" "length calls \<le> length (trajectories (data p2))"
      "\<not> isl r \<longrightarrow> length calls = length (trajectories (data p2))"
      "\<forall>j < length calls. 0 < j \<longrightarrow> call_kw (calls ! j) ''legend'' = Some (PBool False)"
      by auto
    have res: "collection_plot p w = (r, p3, w3)" using cp pm by simp
    show ?thesis
      unfolding res using calls by (intro exI [of _ calls]) (simp add: l2 d2)
  qed
qed



lemmas eval_defs =
  collection_plot_def get_min_max_values_def get_min_max_speed_def get_min_def get_max_def
  plot_member_def plot_trajectory_def make_line_df_def to_line_df_def drop_columns_def rename_column_def
  resolve_color_def column_max_def column_series_def series_min_def series_max_def
  py_min_def py_max_def py_lt_def subscript_def call_kwargs_def static_render_def new_axes_def
  add_speed_def pop_def get_def Let_def
  TrajectoryCollectionPlotter_init_def plotter.defs cplotter.defs init_fields kwargs_init_upd
  ex_collection_def ex_traj_a_def ex_traj_b_def ex_world_def ex_positions_def

theorem collection_plot_legend_witness:
  "call_kw (render_log (snd (snd (collection_plot
       (TrajectoryCollectionPlotter_init ex_collection []
          [''column'' \<mapsto> PStr ''load'', ''legend'' \<mapsto> PBool True])
       (ex_world False)))) ! 1) ''legend'' = Some (PBool False)"
proof -
  define p where "p = TrajectoryCollectionPlotter_init ex_collection []
          [''column'' \<mapsto> PStr ''load'', ''legend'' \<mapsto> PBool True]"
  have ok: "\<not> isl (fst (collection_plot p (ex_world False)))"
    unfolding p_def by (simp add: eval_defs)
  from collection_plot_legend [of p "ex_world False"] obtain calls where calls:
    "render_log (snd (snd (collection_plot p (ex_world False)))) = render_log (ex_world False) @ calls"
    "\<not> isl (fst (collection_plot p (ex_world False))) \<longrightarrow> length calls = length (trajectories (data p))"
    "\<forall>j. 0 < j \<and> j < length calls \<longrightarrow> call_kw (calls ! j) ''legend'' = Some (PBool False)"
    by blast
  have "length calls = 2"
    using calls(2) ok
    by (simp add: p_def TrajectoryCollectionPlotter_init_def plotter.defs init_fields ex_collection_def)
  then have "call_kw (calls ! 1) ''legend'' = Some (PBool False)"
    using calls(3) by simp
  then show ?thesis
    using calls(1) unfolding p_def by (simp add: ex_world_def)
qed

section \<open>The shared scale and the bounds of the member renders\<close>











section \<open>The shared scale of a collection\<close>






















end
